theory Spec2Isabelle
  imports Main
begin

section \<open>JavaScript values\<close>

text \<open>
  The controllers read token claims and request fields without any static type, and they
  decide on them with JavaScript's truthiness test (\<open>!x\<close>, \<open>x && y\<close>) and with strict
  equality. The values are therefore modelled as an untyped value universe.

  A number is \<open>NaN\<close>, an integer, or some other value (a fraction or an infinity). Stored
  identifiers are integers, so a value of the third kind equals no identifier; negative
  zero is the integer zero (it is falsy and strictly equal to zero).
\<close>

datatype jsnum = NaN | Num int | NonInteger

datatype jsval =
    JUndefined
  | JNull
  | JBool bool
  | JNumber jsnum
  | JString string
  | JObject "(string \<times> jsval) list"

type_synonym obj = "(string \<times> jsval) list"

fun truthy_num :: "jsnum \<Rightarrow> bool" where
  "truthy_num NaN = False"
| "truthy_num (Num i) = (i \<noteq> 0)"
| "truthy_num NonInteger = True"

fun truthy :: "jsval \<Rightarrow> bool" where
  "truthy JUndefined = False"
| "truthy JNull = False"
| "truthy (JBool b) = b"
| "truthy (JNumber n) = truthy_num n"
| "truthy (JString s) = (s \<noteq> [])"
| "truthy (JObject fs) = True"

text \<open>\<open>n === i\<close> for a number \<open>n\<close> and an integer identifier \<open>i\<close>.\<close>

fun strict_eq_id :: "jsnum \<Rightarrow> int \<Rightarrow> bool" where
  "strict_eq_id (Num a) i = (a = i)"
| "strict_eq_id NaN i = False"
| "strict_eq_id NonInteger i = False"

text \<open>Property access \<open>o[k]\<close> (also through \<open>?.\<close>): a missing key reads as \<open>undefined\<close>.\<close>

definition obj_get :: "obj \<Rightarrow> string \<Rightarrow> jsval" where
  "obj_get fs k = (case map_of fs k of None \<Rightarrow> JUndefined | Some v \<Rightarrow> v)"

text \<open>lodash's \<open>omit(o, keys)\<close>, and the rest pattern \<open>{ k, ...rest } = o\<close>.\<close>

definition omit :: "obj \<Rightarrow> string list \<Rightarrow> obj" where
  "omit fs ks = filter (\<lambda>(k, v). k \<notin> set ks) fs"

text \<open>The object literal \<open>{ ...o, k: v }\<close>: an own key keeps its place and takes the new value.\<close>

fun obj_set :: "obj \<Rightarrow> string \<Rightarrow> jsval \<Rightarrow> obj" where
  "obj_set [] k v = [(k, v)]"
| "obj_set ((k', v') # fs) k v =
     (if k' = k then (k, v) # fs else (k', v') # obj_set fs k v)"

section \<open>Errors\<close>

text \<open>
  The error classes of \<open>@/common/errors\<close>, with the message and the data object the
  controllers pass. Messages are the source's, with accented letters written unaccented.
  \<open>InternalError\<close> is what the request boundary \<open>catchErrors\<close> makes of any other
  exception (a failure of the store, a \<open>TypeError\<close>).
\<close>

datatype error =
    InvalidTokenError string
  | UnauthorizedError string
  | ValidationError string obj
  | EntityNotFoundError string obj
  | InternalError

text \<open>
  Modelled from the spec: \<open>validateAndParse\<close> of \<open>@/utils/validation\<close> is not among the
  sources. It raises \<open>ValidationError\<close> on a body of the wrong shape and returns the
  parsed body otherwise; which bodies a schema accepts is a parameter.
\<close>

definition validateAndParse :: "('b \<Rightarrow> 'a option) \<Rightarrow> 'b \<Rightarrow> error + 'a" where
  "validateAndParse schema body =
     (case schema body of None \<Rightarrow> Inl (ValidationError [] []) | Some v \<Rightarrow> Inr v)"

section \<open>The store\<close>

text \<open>
  Modelled from the spec: the schema of the relational store and the client \<open>db\<close> of
  \<open>@/database/client\<close> are not among the sources. A user has a numeric identifier, an
  email, first and last name, a password and a reference to one role; a ticket names
  its assignee and its supervisor.
\<close>

record role =
  role_id :: int
  role_name :: string

record user =
  user_id :: int
  email :: string
  firstName :: string
  lastName :: string
  password :: string
  roleId :: int

record UserWithRole = user +
  role :: "role option"

record ticket =
  ticket_id :: int
  assigneeId :: "int option"
  supervisorId :: "int option"

text \<open>
  \<open>db\<close> is the client together with the rows it holds. The controllers pass the client
  whatever value they have at hand, and neither the sources nor the spec say what the
  client does with an argument that is not a value of the column (an identifier that
  is \<open>NaN\<close> or a fraction, an email that is not a string): whether it answers that
  there is no such row, or refuses the call. That behaviour is left open as two
  parameters of the client, \<open>mistyped_user\<close> for a lookup of a user by the named
  column and \<open>mistyped_tickets\<close> for the ticket filter. An error they return is the
  one the request boundary reports.
\<close>

record db =
  users :: "user list"
  roles :: "role list"
  tickets :: "ticket list"
  mistyped_user :: "string \<Rightarrow> jsval \<Rightarrow> error + user option"
  mistyped_tickets :: "jsval \<Rightarrow> error + ticket list"

text \<open>
  Modelled from the spec: \<open>db.user.findUnique\<close> looks a user up by its unique identifier
  or by its unique email. For an integer identifier and for a string email it is the
  exact match on the column.
\<close>

fun findUnique_id :: "db \<Rightarrow> jsval \<Rightarrow> error + user option" where
  "findUnique_id d (JNumber (Num i)) = Inr (find (\<lambda>u. user_id u = i) (users d))"
| "findUnique_id d v = mistyped_user d ''id'' v"

fun findUnique_email :: "db \<Rightarrow> jsval \<Rightarrow> error + user option" where
  "findUnique_email d (JString e) = Inr (find (\<lambda>u. email u = e) (users d))"
| "findUnique_email d v = mistyped_user d ''email'' v"

text \<open>
  Modelled from the spec: the option \<open>include: { role: true }\<close> of the absent store
  client joins the role the user refers to.
\<close>

definition include_role :: "db \<Rightarrow> user \<Rightarrow> UserWithRole" where
  "include_role d u =
     user.extend u (UserWithRole.fields (find (\<lambda>r. role_id r = roleId u) (roles d)))"

definition findMany_users :: "db \<Rightarrow> UserWithRole list" where
  "findMany_users d = map (include_role d) (users d)"

text \<open>
  Modelled from the spec: \<open>db.ticket.findMany\<close> of the absent store client, with the
  filter \<open>OR: [{ assigneeId }, { supervisorId }]\<close>.
\<close>

fun findMany_tickets :: "db \<Rightarrow> jsnum \<Rightarrow> error + ticket list" where
  "findMany_tickets d (Num i) =
     Inr (filter (\<lambda>t. assigneeId t = Some i \<or> supervisorId t = Some i) (tickets d))"
| "findMany_tickets d n = mistyped_tickets d (JNumber n)"

text \<open>
  Modelled from the spec: the writes \<open>db.user.create\<close>, \<open>db.user.update\<close> and
  \<open>db.user.delete\<close> of the absent store client. A write whose data does not fit the
  columns, whose role does not exist or whose target row does not exist is refused by
  the store, which the request boundary reports as \<open>InternalError\<close>. A new user gets
  the next free identifier.
\<close>

definition fresh_id :: "db \<Rightarrow> int" where
  "fresh_id d = fold (\<lambda>u m. max m (user_id u + 1)) (users d) 1"

definition create_user :: "db \<Rightarrow> obj \<Rightarrow> jsval \<Rightarrow> error + (UserWithRole \<times> db)" where
  "create_user d data rid =
     (case (obj_get data ''email'', obj_get data ''firstName'', obj_get data ''lastName'',
            obj_get data ''password'', rid) of
        (JString e, JString f, JString l, JString p, JNumber (Num r)) \<Rightarrow>
          (if find (\<lambda>x. role_id x = r) (roles d) = None then Inl InternalError
           else
             (let u = \<lparr>user_id = fresh_id d, email = e, firstName = f, lastName = l,
                        password = p, roleId = r\<rparr>;
                  d' = d\<lparr>users := users d @ [u]\<rparr>
              in Inr (include_role d' u, d')))
      | _ \<Rightarrow> Inl InternalError)"

text \<open>
  Modelled from the spec: in the data of \<open>db.user.update\<close> a column that is absent keeps
  its value.
\<close>

fun column :: "jsval \<Rightarrow> string \<Rightarrow> string option" where
  "column JUndefined old = Some old"
| "column (JString s) old = Some s"
| "column v old = None"

definition update_user :: "db \<Rightarrow> jsnum \<Rightarrow> obj \<Rightarrow> jsval \<Rightarrow> error + (UserWithRole \<times> db)" where
  "update_user d uid data rid =
     (case findUnique_id d (JNumber uid) of
        Inl e \<Rightarrow> Inl e
      | Inr None \<Rightarrow> Inl InternalError
      | Inr (Some old) \<Rightarrow>
         (case (column (obj_get data ''email'') (email old),
                column (obj_get data ''firstName'') (firstName old),
                column (obj_get data ''lastName'') (lastName old),
                column (obj_get data ''password'') (password old), rid) of
            (Some e, Some f, Some l, Some p, JNumber (Num r)) \<Rightarrow>
              (if find (\<lambda>x. role_id x = r) (roles d) = None then Inl InternalError
               else
                 (let u = \<lparr>user_id = user_id old, email = e, firstName = f, lastName = l,
                            password = p, roleId = r\<rparr>;
                      d' = d\<lparr>users := map (\<lambda>x. if user_id x = user_id old then u else x)
                                          (users d)\<rparr>
                  in Inr (include_role d' u, d')))
          | _ \<Rightarrow> Inl InternalError))"

definition delete_user :: "db \<Rightarrow> jsnum \<Rightarrow> error + db" where
  "delete_user d uid =
     (case findUnique_id d (JNumber uid) of
        Inl e \<Rightarrow> Inl e
      | Inr None \<Rightarrow> Inl InternalError
      | Inr (Some old) \<Rightarrow> Inr (d\<lparr>users := filter (\<lambda>x. user_id x \<noteq> user_id old) (users d)\<rparr>))"

section \<open>The token codec\<close>

text \<open>
  Modelled from the spec: \<open>@/utils/authToken\<close> is not among the sources. A token string
  is either malformed or the encoding of a purpose, a claims payload and an expiry
  time, with a signature that verifies or does not. Reading a token for a purpose fails
  with \<open>InvalidToken\<close> when the token is malformed, when its signature does not verify,
  when its expiry has passed, or when it was issued for another purpose; the codec
  gives no message.
\<close>

datatype purpose = Login | Access | Refresh

record token =
  purpose :: purpose
  claims :: obj
  expiry :: nat
  signed :: bool

datatype wire = Malformed | Encoded token

definition issue :: "obj \<Rightarrow> nat \<Rightarrow> purpose \<Rightarrow> nat \<Rightarrow> wire" where
  "issue cs ttl p now = Encoded \<lparr>purpose = p, claims = cs, expiry = now + ttl, signed = True\<rparr>"

fun read :: "purpose \<Rightarrow> nat \<Rightarrow> wire \<Rightarrow> error + obj" where
  "read p now Malformed = Inl (InvalidTokenError [])"
| "read p now (Encoded t) =
     (if signed t \<and> now < expiry t \<and> purpose t = p then Inr (claims t)
      else Inl (InvalidTokenError []))"

text \<open>
  What the authentication controller is given from outside: the two request schemas
  of \<open>@/schemas/authentication\<close>, the current time and the lifetimes of the tokens it
  issues. The four functions it imports from the codec read and issue tokens of the
  purpose their name says.
\<close>

record 'b auth_env =
  LoginRequestSchema :: "'b \<Rightarrow> wire option"
  RefreshRequestSchema :: "'b \<Rightarrow> wire option"
  now :: nat
  accessTtl :: nat
  refreshTtl :: nat

definition readToken :: "'b auth_env \<Rightarrow> wire \<Rightarrow> error + obj" where
  "readToken env w = read Login (now env) w"

definition verifyRefreshToken :: "'b auth_env \<Rightarrow> wire \<Rightarrow> error + obj" where
  "verifyRefreshToken env w = read Refresh (now env) w"

definition generateAccessToken :: "'b auth_env \<Rightarrow> obj \<Rightarrow> wire" where
  "generateAccessToken env cs = issue cs (accessTtl env) Access (now env)"

definition generateRefreshToken :: "'b auth_env \<Rightarrow> obj \<Rightarrow> wire" where
  "generateRefreshToken env cs = issue cs (refreshTtl env) Refresh (now env)"

section \<open>The authentication controller\<close>

text \<open>
  A request carries the path parameter \<open>userId\<close>, the body, and the current user that
  the authorization middleware attached; the controllers read only the parts they use.
\<close>

record 'b request =
  params_userId :: string
  body :: 'b
  currentUser :: UserWithRole

record session =
  message :: string
  accessToken :: wire
  refreshToken :: wire

text \<open>
  The parsed login body has the one field \<open>token\<close>, the parsed refresh body the one
  field \<open>refreshToken\<close>. In \<open>authenticate\<close> the payload is read through \<open>?.\<close>, which
  also accepts a null payload; the codec modelled here fails instead of returning one.
\<close>

definition authenticate :: "'b auth_env \<Rightarrow> db \<Rightarrow> 'b request \<Rightarrow> error + session" where
  "authenticate env d req =
     (case validateAndParse (LoginRequestSchema env) (body req) of
        Inl e \<Rightarrow> Inl e
      | Inr data_token \<Rightarrow>
         (case readToken env data_token of
            Inl e \<Rightarrow> Inl e
          | Inr tokenData \<Rightarrow>
             (let userEmail = obj_get tokenData ''email'' in
              if \<not> truthy userEmail then Inl (InvalidTokenError ''Token invalido.'')
              else
                (case findUnique_email d userEmail of
                   Inl e \<Rightarrow> Inl e
                 | Inr None \<Rightarrow> Inl (UnauthorizedError ''El usuario no existe.'')
                 | Inr (Some u) \<Rightarrow>
                     Inr \<lparr>message = ''Inicio de sesion exitoso.'',
                          accessToken =
                            generateAccessToken env [(''userId'', JNumber (Num (user_id u)))],
                          refreshToken =
                            generateRefreshToken env [(''userId'', JNumber (Num (user_id u)))]\<rparr>))))"

definition refresh :: "'b auth_env \<Rightarrow> db \<Rightarrow> 'b request \<Rightarrow> error + session" where
  "refresh env d req =
     (case validateAndParse (RefreshRequestSchema env) (body req) of
        Inl e \<Rightarrow> Inl e
      | Inr refreshToken' \<Rightarrow>
         (case verifyRefreshToken env refreshToken' of
            Inl e \<Rightarrow> Inl e
          | Inr payload \<Rightarrow>
             (let userId = obj_get payload ''userId'' in
              if \<not> truthy userId
              then Inl (InvalidTokenError ''Token de actualizacion invalido.'')
              else
                (case findUnique_id d userId of
                   Inl e \<Rightarrow> Inl e
                 | Inr None \<Rightarrow> Inl (InvalidTokenError ''Usuario no encontrado.'')
                 | Inr (Some u) \<Rightarrow>
                     Inr \<lparr>message = ''Validacion de sesion exitosa.'',
                          accessToken =
                            generateAccessToken env [(''userId'', JNumber (Num (user_id u)))],
                          refreshToken =
                            generateRefreshToken env [(''userId'', JNumber (Num (user_id u)))]\<rparr>))))"

section \<open>The users controller\<close>

text \<open>
  What the users controller is given from outside: JavaScript's \<open>Number\<close> conversion of
  a string, and the two request schemas of \<open>@/schemas/users\<close>.
\<close>

record 'b users_env =
  Number :: "string \<Rightarrow> jsnum"
  UserCreateRequestSchema :: "'b \<Rightarrow> obj option"
  UserUpdateRequestSchema :: "'b \<Rightarrow> obj option"

text \<open>
  Modelled from the spec: the type \<open>UserWithRole\<close> of \<open>@/types\<close> is not among the sources;
  \<open>user_object\<close> is the object a joined user row is at run time, one key for each column
  and one for the joined role.
\<close>

definition user_object :: "UserWithRole \<Rightarrow> obj" where
  "user_object u =
     [(''id'', JNumber (Num (user_id u))),
      (''email'', JString (email u)),
      (''firstName'', JString (firstName u)),
      (''lastName'', JString (lastName u)),
      (''password'', JString (password u)),
      (''roleId'', JNumber (Num (roleId u))),
      (''role'', case role u of
                   None \<Rightarrow> JNull
                 | Some r \<Rightarrow> JObject [(''id'', JNumber (Num (role_id r))),
                                       (''name'', JString (role_name r))])]"

text \<open>The template literal of \<open>mapToUserResponse\<close> joins two strings with one space.\<close>

definition mapToUserResponse :: "UserWithRole \<Rightarrow> obj" where
  "mapToUserResponse u =
     obj_set (omit (user_object u) [''password'']) ''fullName''
       (JString (firstName u @ '' '' @ lastName u))"

definition validateUser :: "db \<Rightarrow> jsnum \<Rightarrow> error + unit" where
  "validateUser d userId =
     (case findUnique_id d (JNumber userId) of
        Inl e \<Rightarrow> Inl e
      | Inr None \<Rightarrow> Inl (EntityNotFoundError ''Usuario'' [(''id'', JNumber userId)])
      | Inr (Some u) \<Rightarrow> Inr ())"

text \<open>The second parameter is optional: \<open>None\<close> is a call without it.\<close>

definition validateExistingEmail :: "db \<Rightarrow> jsval \<Rightarrow> jsnum option \<Rightarrow> error + unit" where
  "validateExistingEmail d email' userId =
     (case findUnique_email d email' of
        Inl e \<Rightarrow> Inl e
      | Inr None \<Rightarrow> Inr ()
      | Inr (Some u) \<Rightarrow>
         (if (case userId of None \<Rightarrow> False
              | Some n \<Rightarrow> truthy_num n \<and> strict_eq_id n (user_id u))
          then Inr ()
          else Inl (ValidationError ''El correo electronico ya esta en uso.''
                      [(''email'', email')])))"

definition getUsers :: "'b users_env \<Rightarrow> db \<Rightarrow> 'b request \<Rightarrow> error + obj list" where
  "getUsers env d req = Inr (map mapToUserResponse (findMany_users d))"

text \<open>\<open>user!\<close> asserts a row that the second lookup may not return; reading it then throws.\<close>

definition getUserById :: "'b users_env \<Rightarrow> db \<Rightarrow> 'b request \<Rightarrow> error + obj" where
  "getUserById env d req =
     (let userId = Number env (params_userId req) in
      case validateUser d userId of
        Inl e \<Rightarrow> Inl e
      | Inr _ \<Rightarrow>
         (case findUnique_id d (JNumber userId) of
            Inl e \<Rightarrow> Inl e
          | Inr None \<Rightarrow> Inl InternalError
          | Inr (Some u) \<Rightarrow> Inr (mapToUserResponse (include_role d u))))"

definition createUser :: "'b users_env \<Rightarrow> db \<Rightarrow> 'b request \<Rightarrow> (error + obj) \<times> db" where
  "createUser env d req =
     (case validateAndParse (UserCreateRequestSchema env) (body req) of
        Inl e \<Rightarrow> (Inl e, d)
      | Inr parsed \<Rightarrow>
         (let roleId' = obj_get parsed ''roleId''; data = omit parsed [''roleId''] in
          case validateExistingEmail d (obj_get data ''email'') None of
            Inl e \<Rightarrow> (Inl e, d)
          | Inr _ \<Rightarrow>
             (case create_user d data roleId' of
                Inl e \<Rightarrow> (Inl e, d)
              | Inr (u, d') \<Rightarrow> (Inr (mapToUserResponse u), d'))))"

definition updateUser :: "'b users_env \<Rightarrow> db \<Rightarrow> 'b request \<Rightarrow> (error + obj) \<times> db" where
  "updateUser env d req =
     (let userId = Number env (params_userId req) in
      case validateAndParse (UserUpdateRequestSchema env) (body req) of
        Inl e \<Rightarrow> (Inl e, d)
      | Inr parsed \<Rightarrow>
         (let roleId' = obj_get parsed ''roleId''; data = omit parsed [''roleId''] in
          case validateUser d userId of
            Inl e \<Rightarrow> (Inl e, d)
          | Inr _ \<Rightarrow>
             (case validateExistingEmail d (obj_get data ''email'') (Some userId) of
                Inl e \<Rightarrow> (Inl e, d)
              | Inr _ \<Rightarrow>
                 (case update_user d userId data roleId' of
                    Inl e \<Rightarrow> (Inl e, d)
                  | Inr (u, d') \<Rightarrow> (Inr (mapToUserResponse u), d')))))"

text \<open>\<open>isEmpty\<close> on the array of tickets holds when it has no element.\<close>

definition deleteUser :: "'b users_env \<Rightarrow> db \<Rightarrow> 'b request \<Rightarrow> (error + string) \<times> db" where
  "deleteUser env d req =
     (let userId = Number env (params_userId req) in
      if strict_eq_id userId (user_id (currentUser req))
      then (Inl (ValidationError ''La cuenta actual no puede ser eliminada.'' []), d)
      else
        (case validateUser d userId of
           Inl e \<Rightarrow> (Inl e, d)
         | Inr _ \<Rightarrow>
            (case findMany_tickets d userId of
               Inl e \<Rightarrow> (Inl e, d)
             | Inr tickets' \<Rightarrow>
                (if tickets' \<noteq> []
                 then (Inl (ValidationError ''El usuario tiene tickets asociados.'' []), d)
                 else
                   (case delete_user d userId of
                      Inl e \<Rightarrow> (Inl e, d)
                    | Inr d' \<Rightarrow> (Inr ''Usuario eliminado.'', d'))))))"

definition getCurrentUser :: "'b users_env \<Rightarrow> db \<Rightarrow> 'b request \<Rightarrow> error + obj" where
  "getCurrentUser env d req = Inr (mapToUserResponse (currentUser req))"

section \<open>The shape of a user response\<close>

text \<open>
  \<open>hasOwn\<close> is the presence of a key. A user response is well shaped when it has no
  \<open>password\<close> key and its \<open>fullName\<close> is its \<open>firstName\<close>, one space and its \<open>lastName\<close>.
\<close>

definition hasOwn :: "obj \<Rightarrow> string \<Rightarrow> bool" where
  "hasOwn fs k = (k \<in> set (map fst fs))"

definition user_shape :: "obj \<Rightarrow> bool" where
  "user_shape fs =
     (\<not> hasOwn fs ''password'' \<and>
      (case (obj_get fs ''firstName'', obj_get fs ''lastName'') of
         (JString f, JString l) \<Rightarrow> obj_get fs ''fullName'' = JString (f @ '' '' @ l)
       | _ \<Rightarrow> False))"

section \<open>Sample data\<close>

text \<open>
  The controllers are run below on concrete requests. \<open>Number_digits\<close> is \<open>Number\<close> on
  the strings used there: a string of decimal digits converts to the integer it
  denotes and the empty string to zero. (It sends every other string to \<open>NaN\<close>, which
  \<open>Number\<close> does not for a literal with a sign, a fraction, an exponent, a radix prefix
  or surrounding blanks; no request below has one.) The schemas of the sample
  environments accept every body, and the sample stores refuse a mistyped argument.
\<close>

definition digit_of :: "char \<Rightarrow> int option" where
  "digit_of c =
     (let n = of_char c :: nat in if 48 \<le> n \<and> n \<le> 57 then Some (int n - 48) else None)"

fun decimal :: "string \<Rightarrow> int \<Rightarrow> int option" where
  "decimal [] acc = Some acc"
| "decimal (c # cs) acc =
     (case digit_of c of None \<Rightarrow> None | Some k \<Rightarrow> decimal cs (10 * acc + k))"

definition Number_digits :: "string \<Rightarrow> jsnum" where
  "Number_digits s = (case decimal s 0 of None \<Rightarrow> NaN | Some n \<Rightarrow> Num n)"

definition admin_role :: role where
  "admin_role = \<lparr>role_id = 1, role_name = ''admin''\<rparr>"

definition user_zero :: user where
  "user_zero = \<lparr>user_id = 0, email = ''z@x.com'', firstName = ''Zoe'', lastName = ''Zero'',
                 password = ''pw0'', roleId = 1\<rparr>"

definition user_seven :: user where
  "user_seven = \<lparr>user_id = 7, email = ''a@x.com'', firstName = ''Ana'', lastName = ''Paz'',
                  password = ''pw7'', roleId = 1\<rparr>"

definition user_blank :: user where
  "user_blank = \<lparr>user_id = 3, email = [], firstName = ''No'', lastName = ''Mail'',
                  password = ''pw3'', roleId = 1\<rparr>"

definition sample_db :: db where
  "sample_db = \<lparr>users = [user_zero, user_seven], roles = [admin_role],
                 tickets = [\<lparr>ticket_id = 1, assigneeId = Some 7, supervisorId = None\<rparr>],
                 mistyped_user = (\<lambda>c v. Inl InternalError),
                 mistyped_tickets = (\<lambda>v. Inl InternalError)\<rparr>"

definition blank_db :: db where
  "blank_db = \<lparr>users = [user_blank], roles = [admin_role], tickets = [],
                mistyped_user = (\<lambda>c v. Inl InternalError),
                mistyped_tickets = (\<lambda>v. Inl InternalError)\<rparr>"

definition sample_auth_env :: "wire auth_env" where
  "sample_auth_env = \<lparr>LoginRequestSchema = Some, RefreshRequestSchema = Some,
                       now = 100, accessTtl = 15, refreshTtl = 1000\<rparr>"

definition sample_users_env :: "obj users_env" where
  "sample_users_env = \<lparr>Number = Number_digits, UserCreateRequestSchema = Some,
                        UserUpdateRequestSchema = Some\<rparr>"

definition caller_seven :: UserWithRole where
  "caller_seven = include_role sample_db user_seven"

definition caller_zero :: UserWithRole where
  "caller_zero = include_role sample_db user_zero"

definition login_token :: "obj \<Rightarrow> wire" where
  "login_token cs = Encoded \<lparr>purpose = Login, claims = cs, expiry = 200, signed = True\<rparr>"

definition refresh_token :: "obj \<Rightarrow> wire" where
  "refresh_token cs = Encoded \<lparr>purpose = Refresh, claims = cs, expiry = 2000, signed = True\<rparr>"

definition auth_request :: "wire \<Rightarrow> wire request" where
  "auth_request w = \<lparr>params_userId = [], body = w, currentUser = caller_seven\<rparr>"

definition users_request :: "string \<Rightarrow> obj \<Rightarrow> UserWithRole \<Rightarrow> obj request" where
  "users_request p b cu = \<lparr>params_userId = p, body = b, currentUser = cu\<rparr>"

definition user_body :: "string \<Rightarrow> obj" where
  "user_body e = [(''email'', JString e), (''firstName'', JString ''Eva''),
                  (''lastName'', JString ''Luz''), (''password'', JString ''pw''),
                  (''roleId'', JNumber (Num 1))]"

section \<open>Auxiliary facts\<close>

lemmas sample_defs =
  admin_role_def user_zero_def user_seven_def user_blank_def sample_db_def blank_db_def
  sample_auth_env_def sample_users_env_def caller_seven_def caller_zero_def
  login_token_def refresh_token_def auth_request_def users_request_def user_body_def

lemma sample_Number:
  "Number sample_users_env ''7'' = Num 7"
  "Number sample_users_env ''0'' = Num 0"
  by (simp_all add: sample_users_env_def Number_digits_def digit_of_def)

lemma sample_callers:
  "user_id caller_seven = 7" "user_id caller_zero = 0"
  by (simp_all add: sample_defs include_role_def user.extend_def)

lemma obj_get_omit: "k \<notin> set ks \<Longrightarrow> obj_get (omit fs ks) k = obj_get fs k"
  unfolding obj_get_def omit_def by (induction fs) auto

section \<open>Authentication\<close>

text \<open>
  C1, as amended. For every login token that decodes successfully and whose email claim
  is a non-empty string that the store's lookup by email resolves to a user,
  \<open>authenticate\<close> succeeds and returns an access token and a refresh token whose
  \<open>userId\<close> claims both equal that user's identifier.
\<close>

theorem authenticate_issues_tokens_for_user:
  assumes "validateAndParse (LoginRequestSchema env) (body req) = Inr w"
    and "readToken env w = Inr cs"
    and "obj_get cs ''email'' = JString e"
    and "e \<noteq> []"
    and "findUnique_email d (JString e) = Inr (Some u)"
  shows "\<exists>s ta tr. authenticate env d req = Inr s
           \<and> accessToken s = Encoded ta \<and> refreshToken s = Encoded tr
           \<and> purpose ta = Access \<and> purpose tr = Refresh
           \<and> obj_get (claims ta) ''userId'' = JNumber (Num (user_id u))
           \<and> obj_get (claims tr) ''userId'' = JNumber (Num (user_id u))"
  using assms
  by (simp add: authenticate_def generateAccessToken_def generateRefreshToken_def
      issue_def obj_get_def)

theorem authenticate_issues_tokens_for_user_witness:
  "findUnique_email sample_db (JString ''a@x.com'') = Inr (Some user_seven)
   \<and> (\<exists>s ta tr.
         authenticate sample_auth_env sample_db
           (auth_request (login_token [(''email'', JString ''a@x.com'')])) = Inr s
         \<and> accessToken s = Encoded ta \<and> refreshToken s = Encoded tr
         \<and> purpose ta = Access \<and> purpose tr = Refresh
         \<and> obj_get (claims ta) ''userId'' = JNumber (Num 7)
         \<and> obj_get (claims tr) ''userId'' = JNumber (Num 7))"
proof -
  let ?w = "login_token [(''email'', JString ''a@x.com'')]"
  have p: "validateAndParse (LoginRequestSchema sample_auth_env) (body (auth_request ?w)) = Inr ?w"
    by (simp add: sample_defs validateAndParse_def)
  have r: "readToken sample_auth_env ?w = Inr [(''email'', JString ''a@x.com'')]"
    by (simp add: sample_defs readToken_def)
  have g: "obj_get [(''email'', JString ''a@x.com'')] ''email'' = JString ''a@x.com''"
    by (simp add: obj_get_def)
  have n: "''a@x.com'' \<noteq> []"
    by simp
  have f: "findUnique_email sample_db (JString ''a@x.com'') = Inr (Some user_seven)"
    by (simp add: sample_defs)
  have i: "user_id user_seven = 7"
    by (simp add: user_seven_def)
  from authenticate_issues_tokens_for_user [OF p r g n f] f i show ?thesis
    by simp
qed

text \<open>
  C1 as stated fails: a login token that decodes successfully and whose email claim is
  the empty string, the email of a stored user, is refused with \<open>InvalidToken\<close>,
  because the claim is tested for truthiness before the lookup.
\<close>

theorem authenticate_empty_email_counterexample:
  "validateAndParse (LoginRequestSchema sample_auth_env)
       (body (auth_request (login_token [(''email'', JString [])])))
     = Inr (login_token [(''email'', JString [])])
   \<and> readToken sample_auth_env (login_token [(''email'', JString [])])
     = Inr [(''email'', JString [])]
   \<and> findUnique_email blank_db (obj_get [(''email'', JString [])] ''email'') = Inr (Some user_blank)
   \<and> authenticate sample_auth_env blank_db (auth_request (login_token [(''email'', JString [])]))
     = Inl (InvalidTokenError ''Token invalido.'')"
  by (simp add: sample_defs validateAndParse_def readToken_def authenticate_def obj_get_def)

text \<open>
  C8. A login token that decodes successfully and carries a present (truthy, for a
  string: non-empty) email claim that the store resolves to no user makes
  \<open>authenticate\<close> fail with \<open>Unauthorized\<close>; when the email claim is absent it fails
  with \<open>InvalidToken\<close>.
\<close>

theorem authenticate_unknown_or_absent_email:
  assumes "validateAndParse (LoginRequestSchema env) (body req) = Inr w"
    and "readToken env w = Inr cs"
  shows "(truthy (obj_get cs ''email'') \<and> findUnique_email d (obj_get cs ''email'') = Inr None
            \<longrightarrow> authenticate env d req = Inl (UnauthorizedError ''El usuario no existe.''))
       \<and> (map_of cs ''email'' = None
            \<longrightarrow> authenticate env d req = Inl (InvalidTokenError ''Token invalido.''))"
  using assms by (simp add: authenticate_def obj_get_def)

theorem authenticate_unknown_or_absent_email_witness:
  "truthy (JString ''n@x.com'')
   \<and> findUnique_email sample_db (JString ''n@x.com'') = Inr None
   \<and> authenticate sample_auth_env sample_db
         (auth_request (login_token [(''email'', JString ''n@x.com'')]))
       = Inl (UnauthorizedError ''El usuario no existe.'')
   \<and> map_of ([] :: obj) ''email'' = None
   \<and> authenticate sample_auth_env sample_db (auth_request (login_token []))
       = Inl (InvalidTokenError ''Token invalido.'')"
proof -
  let ?cs = "[(''email'', JString ''n@x.com'')]"
  have p1: "validateAndParse (LoginRequestSchema sample_auth_env)
              (body (auth_request (login_token ?cs))) = Inr (login_token ?cs)"
    by (simp add: sample_defs validateAndParse_def)
  have r1: "readToken sample_auth_env (login_token ?cs) = Inr ?cs"
    by (simp add: sample_defs readToken_def)
  have g1: "obj_get ?cs ''email'' = JString ''n@x.com''"
    by (simp add: obj_get_def)
  have f1: "findUnique_email sample_db (JString ''n@x.com'') = Inr None"
    by (simp add: sample_defs)
  have p2: "validateAndParse (LoginRequestSchema sample_auth_env)
              (body (auth_request (login_token []))) = Inr (login_token [])"
    by (simp add: sample_defs validateAndParse_def)
  have r2: "readToken sample_auth_env (login_token []) = Inr []"
    by (simp add: sample_defs readToken_def)
  from authenticate_unknown_or_absent_email [OF p1 r1, of sample_db]
       authenticate_unknown_or_absent_email [OF p2 r2, of sample_db] g1 f1
  show ?thesis by simp
qed

text \<open>
  C3. For every refresh token that decodes successfully and carries a \<open>userId\<close> claim
  that the store resolves to no user, \<open>refresh\<close> fails with \<open>InvalidToken\<close> (with
  one of its two messages) and not with \<open>Unauthorized\<close>.
\<close>

theorem refresh_missing_user_invalid_token:
  assumes "validateAndParse (RefreshRequestSchema env) (body req) = Inr w"
    and "verifyRefreshToken env w = Inr cs"
    and "map_of cs ''userId'' = Some v"
    and "findUnique_id d v = Inr None"
  shows "refresh env d req =
           Inl (InvalidTokenError (if truthy v then ''Usuario no encontrado.''
                                   else ''Token de actualizacion invalido.''))
       \<and> (\<forall>m. refresh env d req \<noteq> Inl (UnauthorizedError m))"
  using assms by (simp add: refresh_def obj_get_def)

theorem refresh_missing_user_invalid_token_witness:
  "findUnique_id sample_db (JNumber (Num 99)) = Inr None
   \<and> refresh sample_auth_env sample_db
         (auth_request (refresh_token [(''userId'', JNumber (Num 99))]))
       = Inl (InvalidTokenError ''Usuario no encontrado.'')"
proof -
  let ?cs = "[(''userId'', JNumber (Num 99))]"
  have p: "validateAndParse (RefreshRequestSchema sample_auth_env)
             (body (auth_request (refresh_token ?cs))) = Inr (refresh_token ?cs)"
    by (simp add: sample_defs validateAndParse_def)
  have r: "verifyRefreshToken sample_auth_env (refresh_token ?cs) = Inr ?cs"
    by (simp add: sample_defs verifyRefreshToken_def)
  have g: "map_of ?cs ''userId'' = Some (JNumber (Num 99))"
    by simp
  have f: "findUnique_id sample_db (JNumber (Num 99)) = Inr None"
    by (simp add: sample_defs)
  from refresh_missing_user_invalid_token [OF p r g f] f show ?thesis
    by simp
qed

text \<open>
  C9. For every refresh token that decodes successfully and whose \<open>userId\<close> claim is
  the number 0 or any other falsy value, \<open>refresh\<close> fails with \<open>InvalidToken\<close>
  whatever the store holds, also when a user with identifier 0 exists: the claim is
  tested for truthiness.
\<close>

theorem refresh_falsy_userId_invalid_token:
  assumes "validateAndParse (RefreshRequestSchema env) (body req) = Inr w"
    and "verifyRefreshToken env w = Inr cs"
    and "\<not> truthy (obj_get cs ''userId'')"
  shows "refresh env d req = Inl (InvalidTokenError ''Token de actualizacion invalido.'')"
  using assms by (simp add: refresh_def)

theorem refresh_falsy_userId_invalid_token_witness:
  "findUnique_id sample_db (JNumber (Num 0)) = Inr (Some user_zero)
   \<and> \<not> truthy (JNumber (Num 0))
   \<and> refresh sample_auth_env sample_db
         (auth_request (refresh_token [(''userId'', JNumber (Num 0))]))
       = Inl (InvalidTokenError ''Token de actualizacion invalido.'')"
proof -
  let ?cs = "[(''userId'', JNumber (Num 0))]"
  have p: "validateAndParse (RefreshRequestSchema sample_auth_env)
             (body (auth_request (refresh_token ?cs))) = Inr (refresh_token ?cs)"
    by (simp add: sample_defs validateAndParse_def)
  have r: "verifyRefreshToken sample_auth_env (refresh_token ?cs) = Inr ?cs"
    by (simp add: sample_defs verifyRefreshToken_def)
  have t: "\<not> truthy (obj_get ?cs ''userId'')"
    by (simp add: obj_get_def)
  have f: "findUnique_id sample_db (JNumber (Num 0)) = Inr (Some user_zero)"
    by (simp add: sample_defs)
  from refresh_falsy_userId_invalid_token [OF p r t, of sample_db] f show ?thesis
    by simp
qed

section \<open>User management\<close>

text \<open>
  A path parameter that \<open>Number\<close> converts to \<open>NaN\<close> reaches the store as it is: what
  \<open>getUserById\<close> then returns is what the client does with that argument. When the
  client answers that there is no such user the result is \<open>EntityNotFoundError\<close>, and
  when it refuses the call the result is the error of the refusal.
\<close>

lemma getUserById_NaN_follows_client:
  assumes "Number env (params_userId req) = NaN"
  shows "getUserById env d req =
           (case mistyped_user d ''id'' (JNumber NaN) of
              Inl e \<Rightarrow> Inl e
            | Inr None \<Rightarrow> Inl (EntityNotFoundError ''Usuario'' [(''id'', JNumber NaN)])
            | Inr (Some u) \<Rightarrow> Inr (mapToUserResponse (include_role d u)))"
  using assms
  by (simp add: getUserById_def validateUser_def split: sum.splits option.splits)

text \<open>
  C4. For every create request whose body parses and whose email is the email of a
  user in the store, \<open>createUser\<close> fails with \<open>ValidationError\<close> and leaves the store
  as it was.
\<close>

theorem createUser_existing_email_rejected:
  assumes "UserCreateRequestSchema env (body req) = Some parsed"
    and "obj_get parsed ''email'' = JString e"
    and "\<exists>u\<in>set (users d). email u = e"
  shows "createUser env d req =
           (Inl (ValidationError ''El correo electronico ya esta en uso.''
                   [(''email'', JString e)]), d)"
proof -
  from assms(3) obtain u where "find (\<lambda>u. email u = e) (users d) = Some u"
    by (cases "find (\<lambda>u. email u = e) (users d)") (auto simp: find_None_iff)
  with assms(1,2) show ?thesis
    by (simp add: createUser_def validateAndParse_def validateExistingEmail_def obj_get_omit)
qed

theorem createUser_existing_email_rejected_witness:
  "(\<exists>u\<in>set (users sample_db). email u = ''a@x.com'')
   \<and> createUser sample_users_env sample_db (users_request [] (user_body ''a@x.com'') caller_seven)
       = (Inl (ValidationError ''El correo electronico ya esta en uso.''
                 [(''email'', JString ''a@x.com'')]), sample_db)"
proof -
  let ?req = "users_request [] (user_body ''a@x.com'') caller_seven"
  have p: "UserCreateRequestSchema sample_users_env (body ?req) = Some (user_body ''a@x.com'')"
    by (simp add: sample_users_env_def users_request_def)
  have g: "obj_get (user_body ''a@x.com'') ''email'' = JString ''a@x.com''"
    by (simp add: user_body_def obj_get_def)
  have x: "\<exists>u\<in>set (users sample_db). email u = ''a@x.com''"
    by (simp add: sample_db_def user_zero_def user_seven_def)
  from createUser_existing_email_rejected [OF p g x] x show ?thesis
    by simp
qed

text \<open>
  The uniqueness check of an update, in general: the email of another user is refused;
  the user's own email passes when the user's identifier is not zero. With the
  identifier zero the optional parameter \<open>userId\<close> is falsy, and the check refuses the
  user's own email like any other.
\<close>

lemma validateExistingEmail_other:
  assumes "findUnique_email d v = Inr (Some b)"
    and "user_id b \<noteq> a"
  shows "validateExistingEmail d v (Some (Num a)) =
           Inl (ValidationError ''El correo electronico ya esta en uso.'' [(''email'', v)])"
  using assms by (simp add: validateExistingEmail_def)

lemma validateExistingEmail_own:
  assumes "findUnique_email d v = Inr (Some a)"
  shows "validateExistingEmail d v (Some (Num (user_id a))) =
           (if user_id a = 0
            then Inl (ValidationError ''El correo electronico ya esta en uso.'' [(''email'', v)])
            else Inr ())"
  using assms by (simp add: validateExistingEmail_def)

lemma updateUser_email_of_other_user:
  assumes "UserUpdateRequestSchema env (body req) = Some parsed"
    and "Number env (params_userId req) = Num a"
    and "findUnique_id d (JNumber (Num a)) = Inr (Some ua)"
    and "findUnique_email d (obj_get parsed ''email'') = Inr (Some ub)"
    and "user_id ub \<noteq> a"
  shows "updateUser env d req =
           (Inl (ValidationError ''El correo electronico ya esta en uso.''
                   [(''email'', obj_get parsed ''email'')]), d)"
  using assms
  by (simp add: updateUser_def validateAndParse_def validateUser_def obj_get_omit
      validateExistingEmail_other)

text \<open>
  C5, at the input where the code departs from it. User 0 of the sample store has the
  email \<open>z@x.com\<close>; an update of user 0 that supplies this same email is refused by
  the uniqueness check with \<open>ValidationError\<close>, and the store is left as it was.
\<close>

theorem updateUser_own_email_identifier_zero:
  "findUnique_id sample_db (JNumber (Number sample_users_env ''0'')) = Inr (Some user_zero)
   \<and> email user_zero = ''z@x.com''
   \<and> obj_get (user_body ''z@x.com'') ''email'' = JString ''z@x.com''
   \<and> validateExistingEmail sample_db (JString ''z@x.com'') (Some (Num 0))
       = Inl (ValidationError ''El correo electronico ya esta en uso.''
                [(''email'', JString ''z@x.com'')])
   \<and> updateUser sample_users_env sample_db (users_request ''0'' (user_body ''z@x.com'') caller_seven)
       = (Inl (ValidationError ''El correo electronico ya esta en uso.''
                 [(''email'', JString ''z@x.com'')]), sample_db)"
proof -
  have n: "Number sample_users_env ''0'' = Num 0"
    by (rule sample_Number)
  have f: "findUnique_id sample_db (JNumber (Num 0)) = Inr (Some user_zero)"
    by (simp add: sample_defs)
  have e: "findUnique_email sample_db (JString ''z@x.com'') = Inr (Some user_zero)"
    by (simp add: sample_defs)
  have g: "obj_get (user_body ''z@x.com'') ''email'' = JString ''z@x.com''"
    by (simp add: user_body_def obj_get_def)
  have v: "validateExistingEmail sample_db (JString ''z@x.com'') (Some (Num 0))
             = Inl (ValidationError ''El correo electronico ya esta en uso.''
                      [(''email'', JString ''z@x.com'')])"
    using e by (simp add: validateExistingEmail_def user_zero_def)
  have u: "updateUser sample_users_env sample_db
             (users_request ''0'' (user_body ''z@x.com'') caller_seven)
           = (Inl (ValidationError ''El correo electronico ya esta en uso.''
                     [(''email'', JString ''z@x.com'')]), sample_db)"
    using n f g v
    by (simp add: updateUser_def validateAndParse_def validateUser_def obj_get_omit
        users_request_def sample_users_env_def)
  from n f g v u show ?thesis
    by (simp add: user_zero_def)
qed

text \<open>
  C2. For every delete request whose target is a user of the store that some ticket
  names as assignee or supervisor, \<open>deleteUser\<close> fails with \<open>ValidationError\<close> and
  leaves the store as it was, so the user is not deleted.
\<close>

theorem deleteUser_referenced_rejected:
  assumes "Number env (params_userId req) = Num i"
    and "findUnique_id d (JNumber (Num i)) = Inr (Some u)"
    and "\<exists>t\<in>set (tickets d). assigneeId t = Some i \<or> supervisorId t = Some i"
  shows "deleteUser env d req =
           (Inl (ValidationError
                  (if i = user_id (currentUser req)
                   then ''La cuenta actual no puede ser eliminada.''
                   else ''El usuario tiene tickets asociados.'') []), d)
       \<and> findUnique_id (snd (deleteUser env d req)) (JNumber (Num i)) = Inr (Some u)"
  using assms by (auto simp add: deleteUser_def validateUser_def filter_empty_conv)

theorem deleteUser_referenced_rejected_witness:
  "findUnique_id sample_db (JNumber (Num 7)) = Inr (Some user_seven)
   \<and> (\<exists>t\<in>set (tickets sample_db). assigneeId t = Some 7 \<or> supervisorId t = Some 7)
   \<and> deleteUser sample_users_env sample_db (users_request ''7'' [] caller_zero)
       = (Inl (ValidationError ''El usuario tiene tickets asociados.'' []), sample_db)"
proof -
  let ?req = "users_request ''7'' [] caller_zero"
  have n: "Number sample_users_env (params_userId ?req) = Num 7"
    by (simp add: users_request_def sample_Number)
  have f: "findUnique_id sample_db (JNumber (Num 7)) = Inr (Some user_seven)"
    by (simp add: sample_defs)
  have t: "\<exists>t\<in>set (tickets sample_db). assigneeId t = Some 7 \<or> supervisorId t = Some 7"
    by (simp add: sample_db_def)
  have c: "user_id (currentUser ?req) = 0"
    by (simp add: users_request_def sample_callers)
  from deleteUser_referenced_rejected [OF n f t] f t c show ?thesis
    by simp
qed



text \<open>
  What \<open>mapToUserResponse\<close> returns, field by field, and where the controllers'
  responses come from.
\<close>

lemma mapToUserResponse_fields:
  "mapToUserResponse u =
     [(''id'', JNumber (Num (user_id u))),
      (''email'', JString (email u)),
      (''firstName'', JString (firstName u)),
      (''lastName'', JString (lastName u)),
      (''roleId'', JNumber (Num (roleId u))),
      (''role'', case role u of
                   None \<Rightarrow> JNull
                 | Some r \<Rightarrow> JObject [(''id'', JNumber (Num (role_id r))),
                                       (''name'', JString (role_name r))]),
      (''fullName'', JString (firstName u @ '' '' @ lastName u))]"
  by (simp add: mapToUserResponse_def user_object_def omit_def)

lemma user_shape_mapToUserResponse: "user_shape (mapToUserResponse u)"
  by (simp add: mapToUserResponse_fields user_shape_def hasOwn_def obj_get_def)

lemma getUserById_response:
  "getUserById env d req = Inr r \<Longrightarrow> \<exists>u. r = mapToUserResponse u"
  by (auto simp: getUserById_def Let_def split: sum.splits option.splits)

lemma createUser_response:
  "fst (createUser env d req) = Inr r \<Longrightarrow> \<exists>u. r = mapToUserResponse u"
  by (auto simp: createUser_def Let_def split: sum.splits prod.splits)

lemma updateUser_response:
  "fst (updateUser env d req) = Inr r \<Longrightarrow> \<exists>u. r = mapToUserResponse u"
  by (auto simp: updateUser_def Let_def split: sum.splits prod.splits)

text \<open>
  C7. Every user object that \<open>getUsers\<close>, \<open>getUserById\<close>, \<open>createUser\<close>, \<open>updateUser\<close>
  or \<open>getCurrentUser\<close> returns has no \<open>password\<close> field and has a \<open>fullName\<close> equal to
  its first name, one space and its last name.
\<close>

theorem user_responses_well_shaped:
  "(getUsers env d req1 = Inr rs \<longrightarrow> list_all user_shape rs)
   \<and> (getUserById env d req2 = Inr r2 \<longrightarrow> user_shape r2)
   \<and> (fst (createUser env d req3) = Inr r3 \<longrightarrow> user_shape r3)
   \<and> (fst (updateUser env d req4) = Inr r4 \<longrightarrow> user_shape r4)
   \<and> (getCurrentUser env d req5 = Inr r5 \<longrightarrow> user_shape r5)"
proof (intro conjI impI)
  assume "getUsers env d req1 = Inr rs"
  then show "list_all user_shape rs"
    by (auto simp: getUsers_def list_all_iff user_shape_mapToUserResponse)
next
  assume "getUserById env d req2 = Inr r2"
  then show "user_shape r2"
    using getUserById_response user_shape_mapToUserResponse by blast
next
  assume "fst (createUser env d req3) = Inr r3"
  then show "user_shape r3"
    using createUser_response user_shape_mapToUserResponse by blast
next
  assume "fst (updateUser env d req4) = Inr r4"
  then show "user_shape r4"
    using updateUser_response user_shape_mapToUserResponse by blast
next
  assume "getCurrentUser env d req5 = Inr r5"
  then show "user_shape r5"
    by (auto simp: getCurrentUser_def user_shape_mapToUserResponse)
qed

theorem user_responses_well_shaped_witness:
  "getUsers sample_users_env sample_db (users_request [] [] caller_seven)
     = Inr [mapToUserResponse caller_zero, mapToUserResponse caller_seven]
   \<and> list_all user_shape [mapToUserResponse caller_zero, mapToUserResponse caller_seven]
   \<and> getUserById sample_users_env sample_db (users_request ''7'' [] caller_seven)
     = Inr (mapToUserResponse caller_seven)
   \<and> mapToUserResponse caller_seven
     = [(''id'', JNumber (Num 7)), (''email'', JString ''a@x.com''),
        (''firstName'', JString ''Ana''), (''lastName'', JString ''Paz''),
        (''roleId'', JNumber (Num 1)),
        (''role'', JObject [(''id'', JNumber (Num 1)), (''name'', JString ''admin'')]),
        (''fullName'', JString ''Ana Paz'')]
   \<and> user_shape (mapToUserResponse caller_seven)
   \<and> fst (createUser sample_users_env sample_db
             (users_request [] (user_body ''e@x.com'') caller_seven))
     = Inr [(''id'', JNumber (Num 8)), (''email'', JString ''e@x.com''),
            (''firstName'', JString ''Eva''), (''lastName'', JString ''Luz''),
            (''roleId'', JNumber (Num 1)),
            (''role'', JObject [(''id'', JNumber (Num 1)), (''name'', JString ''admin'')]),
            (''fullName'', JString ''Eva Luz'')]
   \<and> user_shape [(''id'', JNumber (Num 8)), (''email'', JString ''e@x.com''),
            (''firstName'', JString ''Eva''), (''lastName'', JString ''Luz''),
            (''roleId'', JNumber (Num 1)),
            (''role'', JObject [(''id'', JNumber (Num 1)), (''name'', JString ''admin'')]),
            (''fullName'', JString ''Eva Luz'')]
   \<and> fst (updateUser sample_users_env sample_db
             (users_request ''7'' (user_body ''a@x.com'') caller_seven))
     = Inr [(''id'', JNumber (Num 7)), (''email'', JString ''a@x.com''),
            (''firstName'', JString ''Eva''), (''lastName'', JString ''Luz''),
            (''roleId'', JNumber (Num 1)),
            (''role'', JObject [(''id'', JNumber (Num 1)), (''name'', JString ''admin'')]),
            (''fullName'', JString ''Eva Luz'')]
   \<and> user_shape [(''id'', JNumber (Num 7)), (''email'', JString ''a@x.com''),
            (''firstName'', JString ''Eva''), (''lastName'', JString ''Luz''),
            (''roleId'', JNumber (Num 1)),
            (''role'', JObject [(''id'', JNumber (Num 1)), (''name'', JString ''admin'')]),
            (''fullName'', JString ''Eva Luz'')]
   \<and> getCurrentUser sample_users_env sample_db (users_request [] [] caller_seven)
     = Inr (mapToUserResponse caller_seven)"
proof -
  let ?E = sample_users_env and ?D = sample_db
  let ?r1 = "users_request [] [] caller_seven"
  let ?r2 = "users_request ''7'' [] caller_seven"
  let ?r3 = "users_request [] (user_body ''e@x.com'') caller_seven"
  let ?r4 = "users_request ''7'' (user_body ''a@x.com'') caller_seven"
  let ?new = "[(''id'', JNumber (Num 8)), (''email'', JString ''e@x.com''),
            (''firstName'', JString ''Eva''), (''lastName'', JString ''Luz''),
            (''roleId'', JNumber (Num 1)),
            (''role'', JObject [(''id'', JNumber (Num 1)), (''name'', JString ''admin'')]),
            (''fullName'', JString ''Eva Luz'')]"
  let ?upd = "[(''id'', JNumber (Num 7)), (''email'', JString ''a@x.com''),
            (''firstName'', JString ''Eva''), (''lastName'', JString ''Luz''),
            (''roleId'', JNumber (Num 1)),
            (''role'', JObject [(''id'', JNumber (Num 1)), (''name'', JString ''admin'')]),
            (''fullName'', JString ''Eva Luz'')]"
  have n7: "Number ?E ''7'' = Num 7"
    by (rule sample_Number)
  have h1: "getUsers ?E ?D ?r1 = Inr [mapToUserResponse caller_zero, mapToUserResponse caller_seven]"
    by (simp add: getUsers_def findMany_users_def sample_db_def caller_zero_def caller_seven_def)
  have h2: "getUserById ?E ?D ?r2 = Inr (mapToUserResponse caller_seven)"
    using n7
    by (simp add: getUserById_def validateUser_def users_request_def caller_seven_def
        sample_db_def user_zero_def user_seven_def)
  have v: "mapToUserResponse caller_seven
     = [(''id'', JNumber (Num 7)), (''email'', JString ''a@x.com''),
        (''firstName'', JString ''Ana''), (''lastName'', JString ''Paz''),
        (''roleId'', JNumber (Num 1)),
        (''role'', JObject [(''id'', JNumber (Num 1)), (''name'', JString ''admin'')]),
        (''fullName'', JString ''Ana Paz'')]"
    by (simp add: mapToUserResponse_fields sample_defs include_role_def user.extend_def
        UserWithRole.fields_def)
  have h3: "fst (createUser ?E ?D ?r3) = Inr ?new"
    by (simp add: createUser_def validateAndParse_def validateExistingEmail_def create_user_def
        fresh_id_def obj_get_def omit_def mapToUserResponse_fields include_role_def
        user.extend_def UserWithRole.fields_def sample_defs)
  have h4: "fst (updateUser ?E ?D ?r4) = Inr ?upd"
    using n7
    by (simp add: updateUser_def validateAndParse_def validateUser_def validateExistingEmail_def
        update_user_def obj_get_def omit_def mapToUserResponse_fields include_role_def
        user.extend_def UserWithRole.fields_def sample_db_def user_zero_def user_seven_def
        admin_role_def users_request_def user_body_def sample_users_env_def)
  have h5: "getCurrentUser ?E ?D ?r1 = Inr (mapToUserResponse caller_seven)"
    by (simp add: getCurrentUser_def users_request_def)
  from user_responses_well_shaped [of ?E ?D ?r1 "[mapToUserResponse caller_zero, mapToUserResponse caller_seven]"
         ?r2 "mapToUserResponse caller_seven" ?r3 ?new ?r4 ?upd ?r1 "mapToUserResponse caller_seven"]
       h1 h2 h3 h4 h5 v
  show ?thesis by simp
qed

end
